theory Spec2Isabelle
  imports Main "HOL-Library.Word"
begin

section \<open>Strings of the host language\<close>

text \<open>
  A string of the program is a sequence of UTF-16 code units. The account token codec
  of \<^verbatim>\<open>account.ts\<close> depends on this: \<^verbatim>\<open>encodeURIComponent\<close> works on code
  units and surrogate pairs, and the \<^verbatim>\<open>.\<close> of a regular expression excludes the
  line terminators U+2028 and U+2029.
\<close>

type_synonym jschar = "16 word"
type_synonym jsstring = "16 word list"

definition js :: "string \<Rightarrow> jsstring" where
  "js s = map of_char s"

text \<open>Exceptions of the program, as values.\<close>

datatype exn =
    Error jsstring
  | URIError
  | TypeError
  | RangeError
  | External jsstring

fun stripPrefix :: "'a list \<Rightarrow> 'a list \<Rightarrow> 'a list option" where
  "stripPrefix [] ys = Some ys"
| "stripPrefix (x # xs) [] = None"
| "stripPrefix (x # xs) (y # ys) = (if x = y then stripPrefix xs ys else None)"

section \<open>encodeURIComponent\<close>

text \<open>
  \<^verbatim>\<open>encodeURIComponent\<close> is the platform's function (ECMA-262, abstract operation
  Encode with the unreserved set \<^verbatim>\<open>A-Z a-z 0-9 - _ . ! ~ * ' ( )\<close>):
  a code unit of the unreserved set is copied; any other code point is written as the
  percent-escaped octets of its UTF-8 encoding; an unpaired surrogate raises URIError.
\<close>

definition uriUnescaped :: "jschar \<Rightarrow> bool" where
  "uriUnescaped c \<longleftrightarrow>
     (0x41 \<le> c \<and> c \<le> 0x5A) \<or> (0x61 \<le> c \<and> c \<le> 0x7A) \<or> (0x30 \<le> c \<and> c \<le> 0x39)
     \<or> c \<in> set (js ''-_.!~*'()'')"

definition hexDigits :: jsstring where
  "hexDigits = js ''0123456789ABCDEF''"

definition percentOctet :: "nat \<Rightarrow> jsstring" where
  "percentOctet b = [0x25, hexDigits ! (b div 16 mod 16), hexDigits ! (b mod 16)]"

definition utf8Octets :: "nat \<Rightarrow> nat list" where
  "utf8Octets cp =
     (if cp < 0x80 then [cp]
      else if cp < 0x800 then [0xC0 + cp div 64, 0x80 + cp mod 64]
      else if cp < 0x10000 then
        [0xE0 + cp div 4096, 0x80 + cp div 64 mod 64, 0x80 + cp mod 64]
      else
        [0xF0 + cp div 262144, 0x80 + cp div 4096 mod 64, 0x80 + cp div 64 mod 64,
         0x80 + cp mod 64])"

definition percentEncode :: "nat \<Rightarrow> jsstring" where
  "percentEncode cp = concat (map percentOctet (utf8Octets cp))"

definition leadSurrogate :: "jschar \<Rightarrow> bool" where
  "leadSurrogate c \<longleftrightarrow> 0xD800 \<le> c \<and> c \<le> 0xDBFF"

definition trailSurrogate :: "jschar \<Rightarrow> bool" where
  "trailSurrogate c \<longleftrightarrow> 0xDC00 \<le> c \<and> c \<le> 0xDFFF"

definition surrogatePair :: "jschar \<Rightarrow> jschar \<Rightarrow> nat" where
  "surrogatePair c d = (unat c - 0xD800) * 0x400 + (unat d - 0xDC00) + 0x10000"

fun encodeURIComponent :: "jsstring \<Rightarrow> exn + jsstring" where
  "encodeURIComponent [] = Inr []"
| "encodeURIComponent (c # cs) =
     (if uriUnescaped c then map_sum id ((#) c) (encodeURIComponent cs)
      else if trailSurrogate c then Inl URIError
      else if leadSurrogate c then
        (case cs of
           [] \<Rightarrow> Inl URIError
         | d # ds \<Rightarrow>
             if trailSurrogate d
             then map_sum id ((@) (percentEncode (surrogatePair c d))) (encodeURIComponent ds)
             else Inl URIError)
      else map_sum id ((@) (percentEncode (unat c))) (encodeURIComponent cs))"

section \<open>Document addresses\<close>

text \<open>
  Modelled from the spec: the document store (the package
  \<^verbatim>\<open>@automerge/automerge-repo\<close>, imported by \<^verbatim>\<open>account.ts\<close> and not part of the
  repository) supplies \<^verbatim>\<open>parseAutomergeUrl\<close> and \<^verbatim>\<open>isValidAutomergeUrl\<close>.
  A document address is \<^verbatim>\<open>automerge:\<close> followed by the document identifier, a
  non-empty run of word characters (\<^verbatim>\<open>\w+\<close>) that the store's own decoder
  accepts. That decoder (base58check) is the parameter \<open>documentIdToBinary\<close>: the
  theorems below hold for every such check.
\<close>

definition urlPrefix :: jsstring where
  "urlPrefix = js ''automerge:''"

definition wordChar :: "jschar \<Rightarrow> bool" where
  "wordChar c \<longleftrightarrow>
     (0x41 \<le> c \<and> c \<le> 0x5A) \<or> (0x61 \<le> c \<and> c \<le> 0x7A) \<or> (0x30 \<le> c \<and> c \<le> 0x39)
     \<or> c = 0x5F"

definition parseAutomergeUrl :: "(jsstring \<Rightarrow> bool) \<Rightarrow> jsstring \<Rightarrow> exn + jsstring" where
  "parseAutomergeUrl documentIdToBinary url =
     (case stripPrefix urlPrefix url of
        None \<Rightarrow> Inl (Error (js ''Invalid document URL''))
      | Some documentId \<Rightarrow>
          if documentId \<noteq> [] \<and> list_all wordChar documentId \<and> documentIdToBinary documentId
          then Inr documentId
          else Inl (Error (js ''Invalid document URL'')))"

definition isValidAutomergeUrl :: "(jsstring \<Rightarrow> bool) \<Rightarrow> jsstring \<Rightarrow> bool" where
  "isValidAutomergeUrl documentIdToBinary str \<longleftrightarrow>
     (case parseAutomergeUrl documentIdToBinary str of Inl _ \<Rightarrow> False | Inr _ \<Rightarrow> True)"

text \<open>A decoder that accepts every identifier, for the examples.\<close>

definition acceptEvery :: "jsstring \<Rightarrow> bool" where
  "acceptEvery documentId = True"

section \<open>The account token codec\<close>

text \<open>
  \<^verbatim>\<open>automergeUrlToAccountToken(url, name)\<close>:
  \<^verbatim>\<open>account:${encodeURIComponent(name)}/${documentId}\<close>.
\<close>

definition automergeUrlToAccountToken ::
  "(jsstring \<Rightarrow> bool) \<Rightarrow> jsstring \<Rightarrow> jsstring \<Rightarrow> exn + jsstring" where
  "automergeUrlToAccountToken documentIdToBinary url name =
     (case parseAutomergeUrl documentIdToBinary url of
        Inl e \<Rightarrow> Inl e
      | Inr documentId \<Rightarrow>
          (case encodeURIComponent name of
             Inl e \<Rightarrow> Inl e
           | Inr label \<Rightarrow> Inr (js ''account:'' @ label @ js ''/'' @ documentId)))"

text \<open>
  \<^verbatim>\<open>token.match(/^account:([^/]+)\/(.+)$/)\<close>, giving the two groups. The first
  group has no \<^verbatim>\<open>/\<close> and is followed by one, so it ends at the first \<^verbatim>\<open>/\<close>
  after the prefix; the second group runs to the end of the input, and \<^verbatim>\<open>.\<close>
  matches every code unit but the line terminators.
\<close>

definition lineTerminator :: "jschar \<Rightarrow> bool" where
  "lineTerminator c \<longleftrightarrow> c = 0x0A \<or> c = 0x0D \<or> c = 0x2028 \<or> c = 0x2029"

definition slash :: jschar where
  "slash = 0x2F"

definition matchAccountToken :: "jsstring \<Rightarrow> (jsstring \<times> jsstring) option" where
  "matchAccountToken token =
     (case stripPrefix (js ''account:'') token of
        None \<Rightarrow> None
      | Some rest \<Rightarrow>
          (let g1 = takeWhile (\<lambda>c. c \<noteq> slash) rest;
               after = dropWhile (\<lambda>c. c \<noteq> slash) rest
           in if g1 = [] then None
              else (case after of
                      [] \<Rightarrow> None
                    | _ # g2 \<Rightarrow>
                        if g2 = [] \<or> list_ex lineTerminator g2 then None
                        else Some (g1, g2))))"

text \<open>\<^verbatim>\<open>accountTokenToAutomergeUrl(token)\<close>; \<open>None\<close> is \<^verbatim>\<open>undefined\<close>.\<close>

definition accountTokenToAutomergeUrl ::
  "(jsstring \<Rightarrow> bool) \<Rightarrow> jsstring \<Rightarrow> jsstring option" where
  "accountTokenToAutomergeUrl documentIdToBinary token =
     (case matchAccountToken token of
        None \<Rightarrow> None
      | Some (g1, documentId) \<Rightarrow>
          if documentId = [] then None
          else (let url = urlPrefix @ documentId
                in if \<not> isValidAutomergeUrl documentIdToBinary url then None
                   else Some url))"

text \<open>
  The token grammar in the words of the specification:
  \<^verbatim>\<open>"account:" + urlEncode(displayLabel) + "/" + documentIdentifier\<close>, with a
  non-empty identifier segment.
\<close>

definition specTokenGrammar :: "jsstring \<Rightarrow> bool" where
  "specTokenGrammar token \<longleftrightarrow>
     (\<exists>name label documentId.
        encodeURIComponent name = Inr label \<and> documentId \<noteq> []
        \<and> token = js ''account:'' @ label @ js ''/'' @ documentId)"

text \<open>The code units \<^verbatim>\<open>encodeURIComponent\<close> can emit.\<close>

definition tokenChar :: "jschar \<Rightarrow> bool" where
  "tokenChar c \<longleftrightarrow> uriUnescaped c \<or> c = 0x25"


section \<open>Documents and the document store\<close>

text \<open>
  The interfaces \<^verbatim>\<open>AccountDoc\<close>, \<^verbatim>\<open>ContactDoc\<close> (the union of
  \<^verbatim>\<open>AnonymousContactDoc\<close> and \<^verbatim>\<open>RegisteredContactDoc\<close>) of \<^verbatim>\<open>account.ts\<close>.
  A document of the store is an object whose fields are assigned one by one inside
  \<^verbatim>\<open>change\<close>, so every field is optional: \<open>None\<close> is \<^verbatim>\<open>undefined\<close>, and a
  document fresh from \<^verbatim>\<open>repo.create()\<close> has no field at all.
\<close>

type_synonym AutomergeUrl = jsstring

record AtprotoProfile =
  displayName :: "jsstring option"
  profile_handle :: jsstring
  avatar :: "jsstring option"

record AccountDoc =
  contactUrl :: "AutomergeUrl option"
  rootFolderUrl :: "AutomergeUrl option"
  atprotoDid :: "jsstring option"
  atprotoHandle :: "jsstring option"
  pssJwt :: "jsstring option"
  lastOnlineSync :: "nat option"

datatype ContactType = anonymous | registered

record ContactDoc =
  type :: "ContactType option"
  name :: "jsstring option"
  avatarUrl :: "AutomergeUrl option"
  atprotoProfile :: "AtprotoProfile option"

record FolderDoc =
  docs :: "AutomergeUrl list option"

datatype document =
    AccountD AccountDoc
  | ContactD ContactDoc
  | FolderD FolderDoc
  | FileD jsstring

definition emptyAccountDoc :: AccountDoc where
  "emptyAccountDoc = \<lparr>contactUrl = None, rootFolderUrl = None, atprotoDid = None,
     atprotoHandle = None, pssJwt = None, lastOnlineSync = None\<rparr>"

definition emptyContactDoc :: ContactDoc where
  "emptyContactDoc = \<lparr>type = None, name = None, avatarUrl = None, atprotoProfile = None\<rparr>"

definition emptyFolderDoc :: FolderDoc where
  "emptyFolderDoc = \<lparr>docs = None\<rparr>"

text \<open>
  Everything outside the \<^verbatim>\<open>Account\<close> object that its methods read or write: the
  repository (\<^verbatim>\<open>storageSubsystem\<close>, its documents by address, the adapters of its
  \<^verbatim>\<open>networkSubsystem\<close>), \<^verbatim>\<open>localStorage\<close> and \<^verbatim>\<open>window.location.href\<close>.
  \<open>idDecoder\<close> is the identifier decoder of the repository's package, the
  parameter of \<open>isValidAutomergeUrl\<close>.
\<close>

record world =
  storageSubsystem :: bool
  documents :: "AutomergeUrl \<rightharpoonup> document"
  networkAdapters :: "jsstring list"
  localStorage :: "jsstring \<rightharpoonup> jsstring"
  location_href :: "jsstring option"
  idDecoder :: "jsstring \<Rightarrow> bool"

record OAuthSession =
  did :: jsstring

text \<open>
  The private fields of class \<^verbatim>\<open>Account\<close>; a handle is the address of its
  document. \<open>emitted\<close> counts the \<^verbatim>\<open>"change"\<close> events the object has emitted;
  \<open>watching\<close> lists the addresses on which the storage listener has registered a
  \<^verbatim>\<open>"change"\<close> listener with \<^verbatim>\<open>accountHandle.on\<close>; \<open>suspended\<close> lists the calls
  of \<^verbatim>\<open>logIn\<close> that stand at their \<^verbatim>\<open>await\<close>, oldest first.
\<close>

record Account =
  handle :: AutomergeUrl
  contactHandle :: AutomergeUrl
  session :: "OAuthSession option"
  emitted :: nat
  watching :: "AutomergeUrl list"
  suspended :: "AutomergeUrl list"

type_synonym state = "Account \<times> world"

text \<open>What a method call leaves: the exception it threw, if any, and the state.\<close>

type_synonym result = "exn option \<times> Account \<times> world"

definition thrown :: "result \<Rightarrow> exn option" where
  "thrown r = fst r"

definition this_of :: "result \<Rightarrow> Account" where
  "this_of r = fst (snd r)"

definition world_of :: "result \<Rightarrow> world" where
  "world_of r = snd (snd r)"

definition ACCOUNT_URL_STORAGE_KEY :: jsstring where
  "ACCOUNT_URL_STORAGE_KEY = js ''tinyEssayEditor:accountUrl''"

text \<open>A value in a condition: \<^verbatim>\<open>undefined\<close> and the empty string are falsy.\<close>

definition truthy :: "jsstring option \<Rightarrow> bool" where
  "truthy v = (case v of None \<Rightarrow> False | Some s \<Rightarrow> s \<noteq> [])"

text \<open>
  Modelled from the spec: the Document Store Facade (\<^verbatim>\<open>Repo\<close> and \<^verbatim>\<open>DocHandle\<close>
  of \<^verbatim>\<open>@automerge/automerge-repo\<close>): \<^verbatim>\<open>create<T>()\<close> makes an empty document at
  a new address, \<^verbatim>\<open>find<T>(address)\<close> followed by \<^verbatim>\<open>doc()\<close> gives the document
  at the address, or nothing when the address does not resolve to a document of type
  \<^verbatim>\<open>T\<close>, and \<^verbatim>\<open>change(fn)\<close> applies \<^verbatim>\<open>fn\<close> to the document of a handle and
  throws when the handle has no document. The new address that \<^verbatim>\<open>create\<close> draws
  at random is an argument of the model.
\<close>

definition create :: "AutomergeUrl \<Rightarrow> document \<Rightarrow> world \<Rightarrow> world" where
  "create u d w = w\<lparr>documents := (documents w)(u \<mapsto> d)\<rparr>"

definition findAccount :: "world \<Rightarrow> AutomergeUrl \<Rightarrow> AccountDoc option" where
  "findAccount w u = (case documents w u of Some (AccountD d) \<Rightarrow> Some d | _ \<Rightarrow> None)"

definition findContact :: "world \<Rightarrow> AutomergeUrl \<Rightarrow> ContactDoc option" where
  "findContact w u = (case documents w u of Some (ContactD d) \<Rightarrow> Some d | _ \<Rightarrow> None)"

definition findFolder :: "world \<Rightarrow> AutomergeUrl \<Rightarrow> FolderDoc option" where
  "findFolder w u = (case documents w u of Some (FolderD d) \<Rightarrow> Some d | _ \<Rightarrow> None)"

definition notReady :: exn where
  "notReady = Error (js ''DocHandle is not ready'')"

definition changeAccount ::
  "AutomergeUrl \<Rightarrow> (AccountDoc \<Rightarrow> AccountDoc) \<Rightarrow> world \<Rightarrow> exn + world" where
  "changeAccount u f w =
     (case findAccount w u of
        None \<Rightarrow> Inl notReady
      | Some d \<Rightarrow> Inr (w\<lparr>documents := (documents w)(u \<mapsto> AccountD (f d))\<rparr>))"

definition changeContact ::
  "AutomergeUrl \<Rightarrow> (ContactDoc \<Rightarrow> ContactDoc) \<Rightarrow> world \<Rightarrow> exn + world" where
  "changeContact u f w =
     (case findContact w u of
        None \<Rightarrow> Inl notReady
      | Some d \<Rightarrow> Inr (w\<lparr>documents := (documents w)(u \<mapsto> ContactD (f d))\<rparr>))"

definition changeFolder ::
  "AutomergeUrl \<Rightarrow> (FolderDoc \<Rightarrow> FolderDoc) \<Rightarrow> world \<Rightarrow> exn + world" where
  "changeFolder u f w =
     (case findFolder w u of
        None \<Rightarrow> Inl notReady
      | Some d \<Rightarrow> Inr (w\<lparr>documents := (documents w)(u \<mapsto> FolderD (f d))\<rparr>))"

text \<open>
  Modelled from the spec: \<^verbatim>\<open>repo.find(address)\<close> of the Document Store Facade
  checks the address before it gives a handle and throws
  \<^verbatim>\<open>Invalid AutomergeUrl\<close> for \<^verbatim>\<open>undefined\<close> and for a string that is not a valid
  document address. Inside \<^verbatim>\<open>change\<close> the store refuses to assign
  \<^verbatim>\<open>undefined\<close>: the callback throws \<^verbatim>\<open>RangeError\<close> and none of its writes is
  kept. \<open>changeAccountE\<close> and \<open>changeContactE\<close> are \<^verbatim>\<open>change\<close> with a callback
  that may throw.
\<close>

definition invalidUrl :: exn where
  "invalidUrl = Error (js ''Invalid AutomergeUrl'')"

definition repo_find :: "world \<Rightarrow> AutomergeUrl option \<Rightarrow> exn + AutomergeUrl" where
  "repo_find w v =
     (case v of
        None \<Rightarrow> Inl invalidUrl
      | Some u \<Rightarrow> if isValidAutomergeUrl (idDecoder w) u then Inr u else Inl invalidUrl)"

definition changeAccountE ::
  "AutomergeUrl \<Rightarrow> (AccountDoc \<Rightarrow> exn + AccountDoc) \<Rightarrow> world \<Rightarrow> exn + world" where
  "changeAccountE u f w =
     (case findAccount w u of
        None \<Rightarrow> Inl notReady
      | Some d \<Rightarrow>
          (case f d of
             Inl e \<Rightarrow> Inl e
           | Inr d' \<Rightarrow> Inr (w\<lparr>documents := (documents w)(u \<mapsto> AccountD d')\<rparr>)))"

definition changeContactE ::
  "AutomergeUrl \<Rightarrow> (ContactDoc \<Rightarrow> exn + ContactDoc) \<Rightarrow> world \<Rightarrow> exn + world" where
  "changeContactE u f w =
     (case findContact w u of
        None \<Rightarrow> Inl notReady
      | Some d \<Rightarrow>
          (case f d of
             Inl e \<Rightarrow> Inl e
           | Inr d' \<Rightarrow> Inr (w\<lparr>documents := (documents w)(u \<mapsto> ContactD d')\<rparr>)))"

definition bind :: "exn + 'a \<Rightarrow> ('a \<Rightarrow> exn + 'b) \<Rightarrow> exn + 'b" where
  "bind m k = (case m of Inl e \<Rightarrow> Inl e | Inr x \<Rightarrow> k x)"

section \<open>The identity manager\<close>

text \<open>
  \<^verbatim>\<open>createAccount(repo)\<close>: three documents are created, then the contact is made
  anonymous, the root folder gets an empty list and the account document gets the two
  addresses. The argument is the triple of addresses that the three calls of
  \<^verbatim>\<open>repo.create\<close> draw.
\<close>

definition createAccount ::
  "AutomergeUrl \<times> AutomergeUrl \<times> AutomergeUrl \<Rightarrow> world
     \<Rightarrow> exn + (AutomergeUrl \<times> AutomergeUrl \<times> AutomergeUrl) \<times> world" where
  "createAccount fresh w =
     (case fresh of (accountH, contactH, rootFolderH) \<Rightarrow>
        (let w1 = create accountH (AccountD emptyAccountDoc) w;
             w2 = create contactH (ContactD emptyContactDoc) w1;
             w3 = create rootFolderH (FolderD emptyFolderDoc) w2
         in bind (changeContact contactH (\<lambda>contact. contact\<lparr>type := Some anonymous\<rparr>) w3)
              (\<lambda>w4. bind (changeFolder rootFolderH
                             (\<lambda>rootFolder. rootFolder\<lparr>docs := Some []\<rparr>) w4)
                 (\<lambda>w5. bind (changeAccount accountH
                                (\<lambda>account. account\<lparr>contactUrl := Some contactH,
                                                    rootFolderUrl := Some rootFolderH\<rparr>) w5)
                    (\<lambda>w6. Inr ((accountH, contactH, rootFolderH), w6))))))"

text \<open>
  \<^verbatim>\<open>logIn(accountUrl)\<close> is an \<^verbatim>\<open>async\<close> method with one \<^verbatim>\<open>await\<close>. A call runs
  \<open>logIn_start\<close> at once: the storage key is overwritten, then
  \<^verbatim>\<open>repo.find(accountUrl)\<close> throws for an address that is not valid, and otherwise
  the call is suspended at \<^verbatim>\<open>await accountHandle.doc()\<close>. The rest,
  \<open>logIn_resume\<close>, runs once the caller's own synchronous run has ended: when the
  document does not resolve, reading its \<^verbatim>\<open>contactUrl\<close> throws; when
  \<^verbatim>\<open>contactUrl\<close> is missing or not a valid address, \<^verbatim>\<open>repo.find\<close> throws; otherwise
  both handles are replaced and \<^verbatim>\<open>"change"\<close> is emitted. \<open>logIn\<close> is the call run
  to its end with nothing in between.
\<close>

definition logIn_start :: "AutomergeUrl \<Rightarrow> state \<Rightarrow> result" where
  "logIn_start accountUrl s =
     (case s of (this, w) \<Rightarrow>
        (let w1 = w\<lparr>localStorage := (localStorage w)(ACCOUNT_URL_STORAGE_KEY \<mapsto> accountUrl)\<rparr>
         in case repo_find w1 (Some accountUrl) of
              Inl e \<Rightarrow> (Some e, this, w1)
            | Inr accountHandle \<Rightarrow>
                (None, this\<lparr>suspended := suspended this @ [accountHandle]\<rparr>, w1)))"

definition logIn_resume :: "AutomergeUrl \<Rightarrow> state \<Rightarrow> result" where
  "logIn_resume accountUrl s =
     (case s of (this, w) \<Rightarrow>
        (let this1 = this\<lparr>suspended := remove1 accountUrl (suspended this)\<rparr> in
         case findAccount w accountUrl of
           None \<Rightarrow> (Some TypeError, this1, w)
         | Some accountDoc \<Rightarrow>
             (case repo_find w (contactUrl accountDoc) of
                Inl e \<Rightarrow> (Some e, this1, w)
              | Inr contactUrl' \<Rightarrow>
                  (None,
                   this1\<lparr>contactHandle := contactUrl', handle := accountUrl,
                         emitted := emitted this1 + 1\<rparr>,
                   w))))"

definition logIn :: "AutomergeUrl \<Rightarrow> state \<Rightarrow> result" where
  "logIn accountUrl s =
     (case logIn_start accountUrl s of
        (Some e, s') \<Rightarrow> (Some e, s')
      | (None, s') \<Rightarrow> logIn_resume accountUrl s')"

text \<open>
  The suspended calls of \<^verbatim>\<open>logIn\<close> run to their ends, oldest first; a call that
  fails rejects its own promise only.
\<close>

fun settle_loop :: "AutomergeUrl list \<Rightarrow> state \<Rightarrow> state" where
  "settle_loop [] s = s"
| "settle_loop (u # us) s = settle_loop us (snd (logIn_resume u s))"

definition settle :: "state \<Rightarrow> state" where
  "settle s = settle_loop (suspended (fst s)) s"

text \<open>
  Modelled from the spec: \<^verbatim>\<open>uploadFile(repo, avatar)\<close> of \<^verbatim>\<open>./utils\<close>, which
  stores the file in a new document and returns its address.
\<close>

definition uploadFile :: "AutomergeUrl \<Rightarrow> jsstring \<Rightarrow> world \<Rightarrow> AutomergeUrl \<times> world" where
  "uploadFile u file w = (u, create u (FileD file) w)"

text \<open>
  \<^verbatim>\<open>signUp({ name, avatar })\<close>: the avatar, when there is one, is uploaded; then the
  contact document of \<^verbatim>\<open>this.contactHandle\<close> is changed. The first argument is the
  address the upload draws.
\<close>

definition signUp :: "AutomergeUrl \<Rightarrow> jsstring \<Rightarrow> jsstring option \<Rightarrow> state \<Rightarrow> result" where
  "signUp fresh nm av s =
     (case s of (this, w) \<Rightarrow>
        (case (case av of
                 None \<Rightarrow> (None, w)
               | Some file \<Rightarrow> (case uploadFile fresh file w of (u, w1) \<Rightarrow> (Some u, w1))) of
           (avUrl, w1) \<Rightarrow>
             (case changeContact (contactHandle this)
                     (\<lambda>contact.
                        (let c1 = contact\<lparr>type := Some registered, name := Some nm\<rparr>
                         in if truthy avUrl then c1\<lparr>avatarUrl := avUrl\<rparr> else c1)) w1 of
                Inl e \<Rightarrow> (Some e, this, w1)
              | Inr w2 \<Rightarrow> (None, this, w2))))"

text \<open>\<^verbatim>\<open>logOut()\<close>; the argument is the triple of new addresses.\<close>

definition logOut :: "AutomergeUrl \<times> AutomergeUrl \<times> AutomergeUrl \<Rightarrow> state \<Rightarrow> result" where
  "logOut fresh s =
     (case s of (this, w) \<Rightarrow>
        (case createAccount fresh w of
           Inl e \<Rightarrow> (Some e, this, w)
         | Inr ((accountH, contactH, rootFolderH), w1) \<Rightarrow>
             (None,
              this\<lparr>handle := accountH, contactHandle := contactH, emitted := emitted this + 1\<rparr>,
              w1\<lparr>localStorage := (localStorage w1)(ACCOUNT_URL_STORAGE_KEY \<mapsto> accountH)\<rparr>)))"

section \<open>The external provider and the sync server\<close>

text \<open>
  What the outside answers, as functions of the request: the OAuth popup
  (\<^verbatim>\<open>this.#client.signInPopup\<close>), the profile (\<^verbatim>\<open>agent.getProfile\<close>), the
  provider's record \<^verbatim>\<open>xyz.groundmist.sync\<close> (\<^verbatim>\<open>getRecord\<close>, with its
  \<^verbatim>\<open>success\<close> flag and the \<^verbatim>\<open>host\<close> of its value), and the sync server's answer
  to \<^verbatim>\<open>POST /authenticate\<close> read with \<^verbatim>\<open>json()\<close>, for a host and the
  \<^verbatim>\<open>rootDocUrl\<close> sent. \<open>Inl\<close> is an exception raised by the call.
\<close>

record getRecordResponse =
  success :: bool
  host :: "jsstring option"

record pssData =
  rootDocUrl :: AutomergeUrl
  token :: jsstring

record env =
  signInPopup :: "jsstring \<Rightarrow> exn + OAuthSession"
  getProfile :: "OAuthSession \<Rightarrow> exn + AtprotoProfile"
  getRecord :: "OAuthSession \<Rightarrow> exn + getRecordResponse"
  authenticate :: "OAuthSession \<Rightarrow> jsstring \<Rightarrow> AutomergeUrl \<Rightarrow> exn + pssData"

text \<open>
  The branch of \<^verbatim>\<open>connectToPSS\<close> taken when \<^verbatim>\<open>data.rootDocUrl !== this.#handle.url\<close>.
  The current documents are read first. \<^verbatim>\<open>this.logOut()\<close> and
  \<^verbatim>\<open>this.logIn(data.rootDocUrl)\<close> are called without \<^verbatim>\<open>await\<close>: \<^verbatim>\<open>logOut\<close> has no
  \<^verbatim>\<open>await\<close> inside and runs to its end, \<^verbatim>\<open>logIn\<close> runs up to its \<^verbatim>\<open>await\<close> and
  is suspended, and the two calls of \<^verbatim>\<open>change\<close> that follow act on the handles
  as they are then. Each callback copies fields of the documents read before; a field
  that is \<^verbatim>\<open>undefined\<close> there makes the store refuse the change.
\<close>

definition rootDocUrlMismatch ::
  "AutomergeUrl \<times> AutomergeUrl \<times> AutomergeUrl \<Rightarrow> pssData \<Rightarrow> state \<Rightarrow> result" where
  "rootDocUrlMismatch fresh data s =
     (case s of (this, w) \<Rightarrow>
        (case findAccount w (handle this) of
           None \<Rightarrow> (Some TypeError, this, w)
         | Some accountDoc \<Rightarrow>
             (case repo_find w (contactUrl accountDoc) of
                Inl e \<Rightarrow> (Some e, this, w)
              | Inr contactUrl' \<Rightarrow>
                  (let contactDoc = findContact w contactUrl';
                       s1 = snd (logOut fresh (this, w));
                       s2 = snd (logIn_start (rootDocUrl data) s1)
                   in case s2 of (this2, w2) \<Rightarrow>
                        (case changeAccountE (handle this2)
                                (\<lambda>account.
                                   case atprotoDid accountDoc of
                                     None \<Rightarrow> Inl RangeError
                                   | Some d \<Rightarrow>
                                       (case atprotoHandle accountDoc of
                                          None \<Rightarrow> Inl RangeError
                                        | Some h \<Rightarrow>
                                            Inr (account\<lparr>atprotoDid := Some d,
                                                          atprotoHandle := Some h,
                                                          pssJwt := Some (token data)\<rparr>))) w2 of
                           Inl e \<Rightarrow> (Some e, this2, w2)
                         | Inr w3 \<Rightarrow>
                             (case changeContactE (contactHandle this2)
                                     (\<lambda>contact.
                                        case contactDoc of
                                          None \<Rightarrow> Inl TypeError
                                        | Some contactDoc' \<Rightarrow>
                                            (case name contactDoc' of
                                               None \<Rightarrow> Inl RangeError
                                             | Some n \<Rightarrow>
                                                 (case atprotoProfile contactDoc' of
                                                    None \<Rightarrow> Inl RangeError
                                                  | Some pr \<Rightarrow>
                                                      Inr (contact\<lparr>type := Some registered,
                                                                    name := Some n,
                                                                    atprotoProfile := Some pr\<rparr>))))
                                     w3 of
                                Inl e \<Rightarrow> (Some e, this2, w3)
                              | Inr w4 \<Rightarrow> (None, this2, w4)))))))"

definition rootDocUrlMatch :: "pssData \<Rightarrow> state \<Rightarrow> result" where
  "rootDocUrlMatch data s =
     (case s of (this, w) \<Rightarrow>
        (case changeAccount (handle this) (\<lambda>account. account\<lparr>pssJwt := Some (token data)\<rparr>) w of
           Inl e \<Rightarrow> (Some e, this, w)
         | Inr w1 \<Rightarrow> (None, this, w1)))"

text \<open>The body of the \<^verbatim>\<open>try\<close> block of \<^verbatim>\<open>connectToPSS\<close>.\<close>

definition connectToPSS_try ::
  "env \<Rightarrow> AutomergeUrl \<times> AutomergeUrl \<times> AutomergeUrl \<Rightarrow> state \<Rightarrow> result" where
  "connectToPSS_try ev fresh s =
     (case s of (this, w) \<Rightarrow>
        (case session this of
           None \<Rightarrow> (Some TypeError, this, w)
         | Some sess \<Rightarrow>
             (case getRecord ev sess of
                Inl e \<Rightarrow> (Some e, this, w)
              | Inr pdsResponse \<Rightarrow>
                  if \<not> success pdsResponse then (None, this, w)
                  else (case host pdsResponse of
                          None \<Rightarrow> (None, this, w)
                        | Some pssHost \<Rightarrow>
                            if pssHost = [] then (None, this, w)
                            else (case authenticate ev sess pssHost (handle this) of
                                    Inl e \<Rightarrow> (Some e, this, w)
                                  | Inr data \<Rightarrow>
                                      (case (if rootDocUrl data \<noteq> handle this
                                             then rootDocUrlMismatch fresh data s
                                             else rootDocUrlMatch data s) of
                                         (Some e, s') \<Rightarrow> (Some e, s')
                                       | (None, this', w') \<Rightarrow>
                                           (None, this',
                                            w'\<lparr>networkAdapters := networkAdapters w' @
                                                 [js ''wss://'' @ pssHost @ js ''?token='' @
                                                  token data]\<rparr>)))))))"

text \<open>\<^verbatim>\<open>connectToPSS()\<close>: the \<^verbatim>\<open>catch\<close> drops whatever the block threw.\<close>

definition connectToPSS ::
  "env \<Rightarrow> AutomergeUrl \<times> AutomergeUrl \<times> AutomergeUrl \<Rightarrow> state \<Rightarrow> result" where
  "connectToPSS ev fresh s =
     (case connectToPSS_try ev fresh s of (_, s') \<Rightarrow> (None, s'))"

text \<open>
  \<^verbatim>\<open>loginWithAtProto(handleOrDid)\<close>: every exception of the \<^verbatim>\<open>try\<close> block is
  logged and thrown again. The contact callback assigns \<^verbatim>\<open>profile.data.displayName\<close>
  and \<^verbatim>\<open>profile.data.avatar\<close> inside \<^verbatim>\<open>atprotoProfile\<close>; when either is
  \<^verbatim>\<open>undefined\<close> the store refuses the change.
\<close>

definition loginWithAtProto ::
  "env \<Rightarrow> AutomergeUrl \<times> AutomergeUrl \<times> AutomergeUrl \<Rightarrow> jsstring \<Rightarrow> state \<Rightarrow> result" where
  "loginWithAtProto ev fresh handleOrDid s =
     (case s of (this, w) \<Rightarrow>
        (let currentAccountUrl = handle this in
         case signInPopup ev handleOrDid of
           Inl e \<Rightarrow> (Some e, this, w)
         | Inr sess \<Rightarrow>
             (let this1 = this\<lparr>session := Some sess\<rparr>;
                  w1 = w\<lparr>location_href := Some currentAccountUrl\<rparr>
              in case getProfile ev sess of
                   Inl e \<Rightarrow> (Some e, this1, w1)
                 | Inr profile \<Rightarrow>
                     (case changeAccount (handle this1)
                             (\<lambda>account. account\<lparr>atprotoDid := Some (did sess),
                                                 atprotoHandle := Some (profile_handle profile)\<rparr>)
                             w1 of
                        Inl e \<Rightarrow> (Some e, this1, w1)
                      | Inr w2 \<Rightarrow>
                          (case changeContactE (contactHandle this1)
                                  (\<lambda>contact.
                                     case displayName profile of
                                       None \<Rightarrow> Inl RangeError
                                     | Some dn \<Rightarrow>
                                         (case avatar profile of
                                            None \<Rightarrow> Inl RangeError
                                          | Some av \<Rightarrow>
                                              Inr (contact\<lparr>type := Some registered,
                                                     name := Some (if dn = []
                                                                   then profile_handle profile
                                                                   else dn),
                                                     atprotoProfile := Some profile\<rparr>))) w2 of
                             Inl e \<Rightarrow> (Some e, this1, w2)
                           | Inr w3 \<Rightarrow> connectToPSS ev fresh (this1, w3))))))"

section \<open>The cross-tab listener\<close>

text \<open>
  The \<^verbatim>\<open>"storage"\<close> listener that the constructor of \<^verbatim>\<open>Account\<close> registers, for
  an event with the given \<^verbatim>\<open>key\<close> and \<^verbatim>\<open>newValue\<close>.
\<close>

definition storageListener :: "jsstring \<Rightarrow> AutomergeUrl \<Rightarrow> state \<Rightarrow> result" where
  "storageListener key newValue s =
     (case s of (this, w) \<Rightarrow>
        if key = ACCOUNT_URL_STORAGE_KEY then
          (case repo_find w (Some newValue) of
             Inl e \<Rightarrow> (Some e, this, w)
           | Inr accountHandle \<Rightarrow>
               (case findAccount w accountHandle of
                  None \<Rightarrow> (Some TypeError, this, w)
                | Some accountDoc \<Rightarrow>
                    if truthy (contactUrl accountDoc) then logIn newValue (this, w)
                    else (None, this\<lparr>watching := watching this @ [newValue]\<rparr>, w)))
        else (None, this, w))"

text \<open>
  A change of the account document at an address: the document is replaced and every
  listener registered on that address is called with the new document; each one calls
  \<^verbatim>\<open>this.logIn\<close> when \<^verbatim>\<open>doc.contactUrl\<close> is set. The listeners stay registered.
\<close>

fun notifyWatchers :: "AutomergeUrl list \<Rightarrow> AutomergeUrl \<Rightarrow> AccountDoc \<Rightarrow> state \<Rightarrow> state" where
  "notifyWatchers [] u doc s = s"
| "notifyWatchers (x # xs) u doc s =
     notifyWatchers xs u doc
       (if x = u \<and> truthy (contactUrl doc) then snd (logIn_start u s) else s)"

definition docChanged :: "AutomergeUrl \<Rightarrow> AccountDoc \<Rightarrow> state \<Rightarrow> state" where
  "docChanged u doc s =
     (case s of (this, w) \<Rightarrow>
        settle (notifyWatchers (watching this) u doc
                  (this, w\<lparr>documents := (documents w)(u \<mapsto> AccountD doc)\<rparr>)))"

section \<open>getAccount\<close>

text \<open>
  \<^verbatim>\<open>getAccount(repo)\<close> with the module's \<^verbatim>\<open>CURRENT_ACCOUNT\<close>, a promise that is
  unset, resolved to an account, or never resolved. The call returns an account,
  throws, or stays pending. \<open>newAccount\<close> is the constructor of \<^verbatim>\<open>Account\<close>
  as far as the fields go; the OAuth client it starts belongs to the outside.
\<close>

datatype promise = Resolved Account | Unresolved

datatype outcome = Returns Account | Throws exn | Pending

definition newAccount :: "AutomergeUrl \<Rightarrow> AutomergeUrl \<Rightarrow> Account" where
  "newAccount accountH contactH =
     \<lparr>handle = accountH, contactHandle = contactH, session = None, emitted = 0,
      watching = [], suspended = []\<rparr>"

definition getAccount ::
  "AutomergeUrl \<times> AutomergeUrl \<times> AutomergeUrl \<Rightarrow> promise option \<times> world
     \<Rightarrow> outcome \<times> promise option \<times> world" where
  "getAccount fresh g =
     (case g of (CURRENT_ACCOUNT, w) \<Rightarrow>
        if \<not> storageSubsystem w
        then (Throws (Error (js ''cannot create account without storage'')), CURRENT_ACCOUNT, w)
        else (case CURRENT_ACCOUNT of
                Some (Resolved currentAccount) \<Rightarrow> (Returns currentAccount, CURRENT_ACCOUNT, w)
              | Some Unresolved \<Rightarrow> (Pending, CURRENT_ACCOUNT, w)
              | None \<Rightarrow>
                  (case (case localStorage w ACCOUNT_URL_STORAGE_KEY of
                           None \<Rightarrow> None
                         | Some v \<Rightarrow> if v = [] then None else Some v) of
                     Some accountUrl \<Rightarrow>
                       (case (case repo_find w (Some accountUrl) of
                                Inl e \<Rightarrow> None
                              | Inr accountHandle \<Rightarrow> findAccount w accountHandle) of
                          None \<Rightarrow> (Pending, Some Unresolved, w)
                        | Some accountDoc \<Rightarrow>
                            (case repo_find w (contactUrl accountDoc) of
                               Inl e \<Rightarrow> (Pending, Some Unresolved, w)
                             | Inr contactUrl' \<Rightarrow>
                                 (let account = newAccount accountUrl contactUrl'
                                  in (Returns account, Some (Resolved account), w))))
                   | None \<Rightarrow>
                       (case createAccount fresh w of
                          Inl e \<Rightarrow> (Throws e, CURRENT_ACCOUNT, w)
                        | Inr ((accountH, contactH, rootFolderH), w1) \<Rightarrow>
                            (let w2 = w1\<lparr>localStorage :=
                                          (localStorage w1)(ACCOUNT_URL_STORAGE_KEY \<mapsto> accountH)\<rparr>;
                                 account = newAccount accountH contactH
                             in (Returns account, Some (Resolved account), w2))))))"

text \<open>
  The negotiation of \<^verbatim>\<open>connectToPSS\<close> ends without a channel: the request for the
  provider's sync record fails or is unsuccessful, the record has no host, or the
  request to the sync server (with \<^verbatim>\<open>json()\<close>) fails.
\<close>

definition noSyncChannel :: "env \<Rightarrow> OAuthSession \<Rightarrow> AutomergeUrl \<Rightarrow> bool" where
  "noSyncChannel ev sess u =
     (case getRecord ev sess of
        Inl e \<Rightarrow> True
      | Inr pdsResponse \<Rightarrow>
          \<not> success pdsResponse \<or>
          (case host pdsResponse of
             None \<Rightarrow> True
           | Some pssHost \<Rightarrow>
               pssHost = [] \<or>
               (case authenticate ev sess pssHost u of Inl e \<Rightarrow> True | Inr data \<Rightarrow> False)))"

section \<open>Example states\<close>

text \<open>
  Concrete addresses, documents and answers of the outside, on which the theorems are
  instantiated: an identity \<open>A\<close> linked to a provider account, a second identity
  \<open>B\<close>, and three addresses \<open>N\<close>, \<open>Nc\<close>, \<open>Nf\<close> not yet in the store.
\<close>

definition exampleId :: jsstring where
  "exampleId = js ''4NMNnkMhL8jXrdJ9jamS58PAVdXu''"

definition urlA :: AutomergeUrl where "urlA = js ''automerge:A''"
definition urlAc :: AutomergeUrl where "urlAc = js ''automerge:Ac''"
definition urlAf :: AutomergeUrl where "urlAf = js ''automerge:Af''"
definition urlB :: AutomergeUrl where "urlB = js ''automerge:B''"
definition urlBc :: AutomergeUrl where "urlBc = js ''automerge:Bc''"
definition urlBf :: AutomergeUrl where "urlBf = js ''automerge:Bf''"
definition urlN :: AutomergeUrl where "urlN = js ''automerge:N''"
definition urlNc :: AutomergeUrl where "urlNc = js ''automerge:Nc''"
definition urlNf :: AutomergeUrl where "urlNf = js ''automerge:Nf''"

definition adaProfile :: AtprotoProfile where
  "adaProfile = \<lparr>displayName = Some (js ''Ada''), profile_handle = js ''ada.example'', avatar = None\<rparr>"

definition docA :: AccountDoc where
  "docA = \<lparr>contactUrl = Some urlAc, rootFolderUrl = Some urlAf,
     atprotoDid = Some (js ''did:plc:ada''), atprotoHandle = Some (js ''ada.example''),
     pssJwt = None, lastOnlineSync = None\<rparr>"

definition contactA :: ContactDoc where
  "contactA = \<lparr>type = Some registered, name = Some (js ''Ada''), avatarUrl = None,
     atprotoProfile = Some adaProfile\<rparr>"

definition docB :: AccountDoc where
  "docB = \<lparr>contactUrl = Some urlBc, rootFolderUrl = Some urlBf,
     atprotoDid = None, atprotoHandle = None, pssJwt = None, lastOnlineSync = None\<rparr>"

definition contactB :: ContactDoc where
  "contactB = \<lparr>type = Some anonymous, name = None, avatarUrl = None, atprotoProfile = None\<rparr>"

definition exampleWorld :: world where
  "exampleWorld =
     \<lparr>storageSubsystem = True,
      documents = [urlA \<mapsto> AccountD docA, urlAc \<mapsto> ContactD contactA,
                   urlAf \<mapsto> FolderD \<lparr>docs = Some []\<rparr>,
                   urlB \<mapsto> AccountD docB, urlBc \<mapsto> ContactD contactB,
                   urlBf \<mapsto> FolderD \<lparr>docs = Some []\<rparr>],
      networkAdapters = [],
      localStorage = [ACCOUNT_URL_STORAGE_KEY \<mapsto> urlA],
      location_href = None,
      idDecoder = acceptEvery\<rparr>"

definition exampleAccount :: Account where
  "exampleAccount = \<lparr>handle = urlA, contactHandle = urlAc,
     session = Some \<lparr>did = js ''did:plc:ada''\<rparr>, emitted = 0, watching = [], suspended = []\<rparr>"

definition exampleEnv :: env where
  "exampleEnv =
     \<lparr>signInPopup = (\<lambda>h. Inr \<lparr>did = js ''did:plc:ada''\<rparr>),
      getProfile = (\<lambda>sess. Inr adaProfile),
      getRecord = (\<lambda>sess. Inr \<lparr>success = True, host = Some (js ''pss.example'')\<rparr>),
      authenticate = (\<lambda>sess h u. Inr \<lparr>rootDocUrl = urlB, token = js ''jwt''\<rparr>)\<rparr>"

definition failingEnv :: env where
  "failingEnv = exampleEnv\<lparr>getProfile := (\<lambda>sess. Inl (External (js ''profile fetch failed''))),
      getRecord := (\<lambda>sess. Inl (External (js ''RecordNotFound'')))\<rparr>"

definition fullProfile :: AtprotoProfile where
  "fullProfile = \<lparr>displayName = Some (js ''Ada''), profile_handle = js ''ada.example'',
     avatar = Some (js ''https://cdn.example/ada.png'')\<rparr>"

definition offlineEnv :: env where
  "offlineEnv = exampleEnv\<lparr>getProfile := (\<lambda>sess. Inr fullProfile), getRecord := (\<lambda>sess. Inl (External (js ''RecordNotFound'')))\<rparr>"

definition docN1 :: AccountDoc where
  "docN1 = emptyAccountDoc\<lparr>contactUrl := Some urlNc, rootFolderUrl := Some urlNf\<rparr>"

definition creatingWorld :: world where
  "creatingWorld = exampleWorld\<lparr>documents := (documents exampleWorld)
      (urlN \<mapsto> AccountD emptyAccountDoc)\<rparr>"

section \<open>Properties of the codec\<close>

lemma stripPrefix_Some_iff: "stripPrefix p s = Some r \<longleftrightarrow> s = p @ r"
  by (induction p s rule: stripPrefix.induct) auto

lemma stripPrefix_append: "stripPrefix p (p @ r) = Some r"
  by (simp add: stripPrefix_Some_iff)

lemma split_at_slash:
  assumes "slash \<notin> set g1"
  shows "takeWhile (\<lambda>c. c \<noteq> slash) (g1 @ slash # g2) = g1"
    and "dropWhile (\<lambda>c. c \<noteq> slash) (g1 @ slash # g2) = slash # g2"
  using assms by (induction g1) auto

lemma matchAccountToken_Some_iff:
  "matchAccountToken tok = Some (g1, g2) \<longleftrightarrow>
     tok = js ''account:'' @ g1 @ slash # g2 \<and> g1 \<noteq> [] \<and> slash \<notin> set g1
     \<and> g2 \<noteq> [] \<and> \<not> list_ex lineTerminator g2"
proof
  assume m: "matchAccountToken tok = Some (g1, g2)"
  then obtain rest where r: "stripPrefix (js ''account:'') tok = Some rest"
    by (auto simp: matchAccountToken_def split: option.splits)
  let ?t = "takeWhile (\<lambda>c. c \<noteq> slash) rest"
  let ?d = "dropWhile (\<lambda>c. c \<noteq> slash) rest"
  from m r have g1: "g1 = ?t" "g1 \<noteq> []" and d: "\<exists>x. ?d = x # g2"
    and g2: "g2 \<noteq> []" "\<not> list_ex lineTerminator g2"
    by (auto simp: matchAccountToken_def Let_def split: list.splits if_splits)
  from d obtain x where x: "?d = x # g2" by blast
  have "x = hd ?d" using x by simp
  moreover have "?d \<noteq> []" using x by simp
  ultimately have "x = slash" using hd_dropWhile[of "\<lambda>c. c \<noteq> slash" rest] by auto
  moreover have "rest = ?t @ ?d" by simp
  moreover have "slash \<notin> set ?t" by (auto dest: set_takeWhileD)
  ultimately show "tok = js ''account:'' @ g1 @ slash # g2 \<and> g1 \<noteq> [] \<and> slash \<notin> set g1
     \<and> g2 \<noteq> [] \<and> \<not> list_ex lineTerminator g2"
    using r g1 g2 x by (simp add: stripPrefix_Some_iff)
next
  assume a: "tok = js ''account:'' @ g1 @ slash # g2 \<and> g1 \<noteq> [] \<and> slash \<notin> set g1
     \<and> g2 \<noteq> [] \<and> \<not> list_ex lineTerminator g2"
  then have "stripPrefix (js ''account:'') tok = Some (g1 @ slash # g2)"
    by (simp add: stripPrefix_Some_iff)
  with a show "matchAccountToken tok = Some (g1, g2)"
    by (simp add: matchAccountToken_def split_at_slash)
qed

lemma set_hexDigits:
  "set hexDigits = {0x30,0x31,0x32,0x33,0x34,0x35,0x36,0x37,0x38,0x39,0x41,0x42,0x43,0x44,0x45,0x46}"
  by (simp add: hexDigits_def js_def)

lemma length_hexDigits: "length hexDigits = 16"
  by (simp add: hexDigits_def js_def)

lemma hexDigit_unescaped: "n < 16 \<Longrightarrow> uriUnescaped (hexDigits ! n)"
proof -
  assume "n < 16"
  then have "hexDigits ! n \<in> set hexDigits" by (simp add: length_hexDigits)
  then show ?thesis unfolding set_hexDigits uriUnescaped_def by auto
qed

lemma percentOctet_chars: "list_all tokenChar (percentOctet b)"
  by (simp add: percentOctet_def tokenChar_def hexDigit_unescaped)

lemma percentEncode_chars: "list_all tokenChar (percentEncode cp)"
  by (simp add: percentEncode_def list_all_iff percentOctet_chars[unfolded list_all_iff])

lemma percentEncode_nonempty: "percentEncode cp \<noteq> []"
  by (simp add: percentEncode_def utf8Octets_def percentOctet_def)

lemma encodeURIComponent_chars:
  "encodeURIComponent s = Inr e \<Longrightarrow> list_all tokenChar e"
proof (induction s arbitrary: e rule: encodeURIComponent.induct)
  case 1
  then show ?case by simp
next
  case (2 c cs)
  show ?case
  proof (cases "uriUnescaped c")
    case True
    with 2 show ?thesis
      by (cases "encodeURIComponent cs") (auto simp: tokenChar_def)
  next
    case nu: False
    show ?thesis
    proof (cases "leadSurrogate c \<and> \<not> trailSurrogate c")
      case True
      with nu 2(4) obtain d ds where cs: "cs = d # ds" and d: "trailSurrogate d"
        by (cases cs) (auto split: if_splits)
      with nu True 2(4) obtain r where r: "encodeURIComponent ds = Inr r"
        and e: "e = percentEncode (surrogatePair c d) @ r"
        by (cases "encodeURIComponent ds") auto
      from 2(2)[OF nu _ _ cs d r] True have "list_all tokenChar r" by simp
      with e show ?thesis by (simp add: percentEncode_chars)
    next
      case False
      with nu 2(4) obtain r where r: "encodeURIComponent cs = Inr r"
        and e: "e = percentEncode (unat c) @ r" and nt: "\<not> trailSurrogate c" and nl: "\<not> leadSurrogate c"
        by (cases "encodeURIComponent cs") (auto split: if_splits)
      from 2(3)[OF nu nt nl r] have "list_all tokenChar r" .
      with e show ?thesis by (simp add: percentEncode_chars)
    qed
  qed
qed

lemma encodeURIComponent_empty:
  "encodeURIComponent s = Inr e \<Longrightarrow> e = [] \<longleftrightarrow> s = []"
  by (cases s) (auto simp: map_sum_def percentEncode_nonempty split: if_splits list.splits sum.splits)

lemma tokenChar_not_slash: "tokenChar c \<Longrightarrow> c \<noteq> slash"
  by (auto simp: tokenChar_def uriUnescaped_def slash_def js_def)


lemma tokenChar_not_space: "tokenChar c \<Longrightarrow> c \<noteq> 0x20"
  by (auto simp: tokenChar_def uriUnescaped_def js_def)

lemma encodeURIComponent_no_slash:
  "encodeURIComponent s = Inr e \<Longrightarrow> slash \<notin> set e"
  using encodeURIComponent_chars[of s e] tokenChar_not_slash by (auto simp: list_all_iff)

lemma js_slash: "js ''/'' = [slash]"
  by (simp add: js_def slash_def)

lemma isValidAutomergeUrl_iff:
  "isValidAutomergeUrl b url \<longleftrightarrow>
     (\<exists>d. url = urlPrefix @ d \<and> d \<noteq> [] \<and> list_all wordChar d \<and> b d)"
  by (auto simp: isValidAutomergeUrl_def parseAutomergeUrl_def stripPrefix_Some_iff
      stripPrefix_append split: option.splits)

lemma parseAutomergeUrl_valid:
  "isValidAutomergeUrl b url \<Longrightarrow> \<exists>d. parseAutomergeUrl b url = Inr d \<and> url = urlPrefix @ d"
  by (auto simp: isValidAutomergeUrl_def parseAutomergeUrl_def stripPrefix_Some_iff
      split: option.splits if_splits)

lemma wordChar_not_lineTerminator: "wordChar c \<Longrightarrow> \<not> lineTerminator c"
  by (auto simp: wordChar_def lineTerminator_def)

lemma valid_no_lineTerminator:
  "isValidAutomergeUrl b (urlPrefix @ d) \<Longrightarrow> d \<noteq> [] \<and> \<not> list_ex lineTerminator d"
  using wordChar_not_lineTerminator
  by (auto simp: isValidAutomergeUrl_iff list_all_iff list_ex_iff)

lemma accountTokenToAutomergeUrl_Some_iff:
  "accountTokenToAutomergeUrl b tok = Some url \<longleftrightarrow>
     (\<exists>lab documentId.
        tok = js ''account:'' @ lab @ js ''/'' @ documentId
        \<and> lab \<noteq> [] \<and> slash \<notin> set lab
        \<and> isValidAutomergeUrl b (urlPrefix @ documentId)
        \<and> url = urlPrefix @ documentId)"
proof
  assume a: "accountTokenToAutomergeUrl b tok = Some url"
  then obtain g1 g2 where m: "matchAccountToken tok = Some (g1, g2)"
    by (auto simp: accountTokenToAutomergeUrl_def split: option.splits)
  with a have "isValidAutomergeUrl b (urlPrefix @ g2)" "url = urlPrefix @ g2"
    by (auto simp: accountTokenToAutomergeUrl_def Let_def split: if_splits)
  with m show "\<exists>lab documentId.
        tok = js ''account:'' @ lab @ js ''/'' @ documentId
        \<and> lab \<noteq> [] \<and> slash \<notin> set lab
        \<and> isValidAutomergeUrl b (urlPrefix @ documentId)
        \<and> url = urlPrefix @ documentId"
    by (auto simp: matchAccountToken_Some_iff js_slash)
next
  assume "\<exists>lab documentId.
        tok = js ''account:'' @ lab @ js ''/'' @ documentId
        \<and> lab \<noteq> [] \<and> slash \<notin> set lab
        \<and> isValidAutomergeUrl b (urlPrefix @ documentId)
        \<and> url = urlPrefix @ documentId"
  then obtain lab d where t: "tok = js ''account:'' @ lab @ slash # d"
    and l: "lab \<noteq> []" "slash \<notin> set lab"
    and v: "isValidAutomergeUrl b (urlPrefix @ d)" and u: "url = urlPrefix @ d"
    by (auto simp: js_slash)
  from v have "d \<noteq> []" "\<not> list_ex lineTerminator d"
    using valid_no_lineTerminator by blast+
  with t l have "matchAccountToken tok = Some (lab, d)"
    by (simp add: matchAccountToken_Some_iff)
  with v u \<open>d \<noteq> []\<close> show "accountTokenToAutomergeUrl b tok = Some url"
    by (simp add: accountTokenToAutomergeUrl_def)
qed

lemmas url_defs = urlA_def urlAc_def urlAf_def urlB_def urlBc_def urlBf_def urlN_def urlNc_def
  urlNf_def

lemmas example_defs = exampleWorld_def exampleAccount_def exampleEnv_def docA_def docB_def
  contactA_def contactB_def adaProfile_def

lemmas model_defs = connectToPSS_def connectToPSS_try_def rootDocUrlMismatch_def
  rootDocUrlMatch_def logOut_def createAccount_def create_def bind_def changeAccount_def
  changeContact_def changeFolder_def findAccount_def findContact_def findFolder_def
  logIn_start_def logIn_resume_def logIn_def settle_def emptyAccountDoc_def emptyContactDoc_def
  emptyFolderDoc_def Let_def repo_find_def invalidUrl_def changeAccountE_def changeContactE_def
  isValidAutomergeUrl_def parseAutomergeUrl_def urlPrefix_def wordChar_def acceptEvery_def

lemma urls_distinct: "distinct [urlA, urlAc, urlAf, urlB, urlBc, urlBf, urlN, urlNc, urlNf]"
  by (simp add: url_defs js_def)

lemma lone_surrogate_label_throws:
  "automergeUrlToAccountToken acceptEvery (urlPrefix @ exampleId) [0xD83D] = Inl URIError"
  by (simp add: automergeUrlToAccountToken_def parseAutomergeUrl_def stripPrefix_append
      exampleId_def js_def wordChar_def acceptEvery_def uriUnescaped_def trailSurrogate_def
      leadSurrogate_def)

lemma exampleId_valid: "isValidAutomergeUrl acceptEvery (urlPrefix @ exampleId)"
  by (simp add: isValidAutomergeUrl_iff exampleId_def js_def wordChar_def acceptEvery_def)

lemma encode_Ada: "encodeURIComponent (js ''Ada'') = Inr (js ''Ada'')"
  by (simp add: js_def uriUnescaped_def)

text \<open>
  Claim C2, as amended. For every address \<open>u\<close> the document store accepts and every
  non-empty label on which \<^verbatim>\<open>encodeURIComponent\<close> returns,
  \<^verbatim>\<open>automergeUrlToAccountToken\<close> returns a token and
  \<^verbatim>\<open>accountTokenToAutomergeUrl\<close> maps that token back to \<open>u\<close>.
\<close>

theorem token_roundtrip:
  assumes "isValidAutomergeUrl documentIdToBinary u"
    and "nm \<noteq> []"
    and "encodeURIComponent nm = Inr lab"
  shows "\<exists>tok. automergeUrlToAccountToken documentIdToBinary u nm = Inr tok
           \<and> accountTokenToAutomergeUrl documentIdToBinary tok = Some u"
proof -
  from assms(1) obtain d where d: "parseAutomergeUrl documentIdToBinary u = Inr d"
    "u = urlPrefix @ d"
    using parseAutomergeUrl_valid by blast
  let ?tok = "js ''account:'' @ lab @ js ''/'' @ d"
  have enc: "automergeUrlToAccountToken documentIdToBinary u nm = Inr ?tok"
    using d assms(3) by (simp add: automergeUrlToAccountToken_def)
  have "lab \<noteq> []" using assms(2,3) encodeURIComponent_empty by blast
  moreover have "slash \<notin> set lab" using assms(3) by (rule encodeURIComponent_no_slash)
  ultimately have "accountTokenToAutomergeUrl documentIdToBinary ?tok = Some u"
    using assms(1) d(2) by (auto simp: accountTokenToAutomergeUrl_Some_iff)
  with enc show ?thesis by blast
qed

theorem token_roundtrip_witness:
  "isValidAutomergeUrl acceptEvery (urlPrefix @ exampleId) \<and> js ''Ada'' \<noteq> []
   \<and> encodeURIComponent (js ''Ada'') = Inr (js ''Ada'')
   \<and> (\<exists>tok. automergeUrlToAccountToken acceptEvery (urlPrefix @ exampleId) (js ''Ada'') = Inr tok
           \<and> accountTokenToAutomergeUrl acceptEvery tok = Some (urlPrefix @ exampleId))"
proof -
  have h2: "js ''Ada'' \<noteq> []" by (simp add: js_def)
  show ?thesis
    by (intro conjI exampleId_valid h2 encode_Ada
        token_roundtrip[OF exampleId_valid h2 encode_Ada])
qed

text \<open>
  The claim as stated includes the empty label. With the empty label the token is
  \<^verbatim>\<open>account:/<identifier>\<close>, which \<^verbatim>\<open>[^/]+\<close> does not match: decoding gives
  \<^verbatim>\<open>undefined\<close>. A label that is an unpaired surrogate makes the encoder throw.
\<close>

theorem token_roundtrip_empty_label_counterexample:
  "isValidAutomergeUrl acceptEvery (urlPrefix @ exampleId)
   \<and> automergeUrlToAccountToken acceptEvery (urlPrefix @ exampleId) []
       = Inr (js ''account:/'' @ exampleId)
   \<and> accountTokenToAutomergeUrl acceptEvery (js ''account:/'' @ exampleId) = None
   \<and> automergeUrlToAccountToken acceptEvery (urlPrefix @ exampleId) [0xD83D] = Inl URIError"
proof -
  have "automergeUrlToAccountToken acceptEvery (urlPrefix @ exampleId) []
       = Inr (js ''account:/'' @ exampleId)"
    by (simp add: automergeUrlToAccountToken_def parseAutomergeUrl_def stripPrefix_append
      exampleId_def js_def wordChar_def acceptEvery_def)
  moreover have "accountTokenToAutomergeUrl acceptEvery (js ''account:/'' @ exampleId) = None"
    by (simp add: accountTokenToAutomergeUrl_def matchAccountToken_def js_def slash_def)
  ultimately show ?thesis using exampleId_valid lone_surrogate_label_throws by blast
qed

text \<open>
  Claim C6, as amended. \<^verbatim>\<open>accountTokenToAutomergeUrl\<close> is a total function into
  an option, so it never throws. Whenever it returns an address, the token is
  \<^verbatim>\<open>account:\<close>, a label segment without \<^verbatim>\<open>/\<close> (which need not be
  percent-encoded), a \<^verbatim>\<open>/\<close>, and an identifier whose address the document store
  accepts, and the result is that address; in every other case it returns
  \<^verbatim>\<open>undefined\<close>. Conversely every such token with a non-empty label segment is
  decoded to the address of its identifier.
\<close>

theorem decode_strict:
  "(accountTokenToAutomergeUrl documentIdToBinary tok = Some u \<longrightarrow>
      (\<exists>lab documentId.
         tok = js ''account:'' @ lab @ js ''/'' @ documentId
         \<and> slash \<notin> set lab
         \<and> isValidAutomergeUrl documentIdToBinary (urlPrefix @ documentId)
         \<and> u = urlPrefix @ documentId))
   \<and> (lab' \<noteq> [] \<and> slash \<notin> set lab'
        \<and> isValidAutomergeUrl documentIdToBinary (urlPrefix @ documentId')
      \<longrightarrow> accountTokenToAutomergeUrl documentIdToBinary
            (js ''account:'' @ lab' @ js ''/'' @ documentId') = Some (urlPrefix @ documentId'))"
  using accountTokenToAutomergeUrl_Some_iff by blast

theorem decode_strict_witness:
  "accountTokenToAutomergeUrl acceptEvery (js ''account:'' @ js ''Ada'' @ js ''/'' @ exampleId)
     = Some (urlPrefix @ exampleId)
   \<and> (\<exists>lab documentId.
         js ''account:'' @ js ''Ada'' @ js ''/'' @ exampleId
           = js ''account:'' @ lab @ js ''/'' @ documentId
         \<and> slash \<notin> set lab
         \<and> isValidAutomergeUrl acceptEvery (urlPrefix @ documentId)
         \<and> urlPrefix @ exampleId = urlPrefix @ documentId)
   \<and> js ''Ada'' \<noteq> [] \<and> slash \<notin> set (js ''Ada'')
   \<and> isValidAutomergeUrl acceptEvery (urlPrefix @ exampleId)"
proof -
  have h: "js ''Ada'' \<noteq> []" "slash \<notin> set (js ''Ada'')"
    by (simp_all add: js_def slash_def)
  note c = decode_strict[of acceptEvery "js ''account:'' @ js ''Ada'' @ js ''/'' @ exampleId"
      "urlPrefix @ exampleId" "js ''Ada''" exampleId]
  from c h exampleId_valid show ?thesis by blast
qed

lemma specTokenGrammar_label:
  assumes "specTokenGrammar (js ''account:'' @ rest)"
  shows "list_all tokenChar (takeWhile (\<lambda>c. c \<noteq> slash) rest)"
proof -
  from assms obtain nm lab d where e: "encodeURIComponent nm = Inr lab"
    and r: "rest = lab @ slash # d"
    by (auto simp: specTokenGrammar_def js_slash)
  have "slash \<notin> set lab" using e by (rule encodeURIComponent_no_slash)
  then have "takeWhile (\<lambda>c. c \<noteq> slash) rest = lab" using r by (simp add: split_at_slash)
  with e show ?thesis using encodeURIComponent_chars by simp
qed

text \<open>
  The claim as stated rejects every string outside the grammar
  \<^verbatim>\<open>account:<percent-encoded label>/<identifier>\<close>. A label segment with a raw
  space is no output of \<^verbatim>\<open>encodeURIComponent\<close>, yet the token is decoded.
\<close>

theorem decode_accepts_unencoded_label_counterexample:
  "\<not> specTokenGrammar (js ''account:a b/'' @ exampleId)
   \<and> accountTokenToAutomergeUrl acceptEvery (js ''account:a b/'' @ exampleId)
       = Some (urlPrefix @ exampleId)"
proof -
  have "\<not> specTokenGrammar (js ''account:'' @ js ''a b/'' @ exampleId)"
  proof
    assume "specTokenGrammar (js ''account:'' @ js ''a b/'' @ exampleId)"
    then have "list_all tokenChar (takeWhile (\<lambda>c. c \<noteq> slash) (js ''a b/'' @ exampleId))"
      by (rule specTokenGrammar_label)
    then have "tokenChar 0x20" by (simp add: js_def slash_def)
    then show False using tokenChar_not_space by blast
  qed
  then have 1: "\<not> specTokenGrammar (js ''account:a b/'' @ exampleId)" by (simp add: js_def)
  have "js ''account:a b/'' @ exampleId = js ''account:'' @ js ''a b'' @ js ''/'' @ exampleId
      \<and> js ''a b'' \<noteq> [] \<and> slash \<notin> set (js ''a b'')"
    by (simp add: js_def slash_def)
  then have 2: "accountTokenToAutomergeUrl acceptEvery (js ''account:a b/'' @ exampleId)
       = Some (urlPrefix @ exampleId)"
    using exampleId_valid accountTokenToAutomergeUrl_Some_iff by blast
  from 1 2 show ?thesis by blast
qed


section \<open>Properties of the identity manager\<close>

lemma createAccount_result:
  assumes "distinct [a, c, f]"
  shows "createAccount (a, c, f) w =
     Inr ((a, c, f),
          w\<lparr>documents := (documents w)
               (c \<mapsto> ContactD (emptyContactDoc\<lparr>type := Some anonymous\<rparr>),
                f \<mapsto> FolderD (emptyFolderDoc\<lparr>docs := Some []\<rparr>),
                a \<mapsto> AccountD (emptyAccountDoc\<lparr>contactUrl := Some c, rootFolderUrl := Some f\<rparr>))\<rparr>)"
  using assms
  by (auto simp: createAccount_def create_def bind_def changeContact_def changeFolder_def
        changeAccount_def findContact_def findFolder_def findAccount_def Let_def)

lemma logOut_result:
  assumes "distinct [a, c, f]"
  shows "logOut (a, c, f) (this, w) =
     (None,
      this\<lparr>handle := a, contactHandle := c, emitted := emitted this + 1\<rparr>,
      w\<lparr>documents := (documents w)
               (c \<mapsto> ContactD (emptyContactDoc\<lparr>type := Some anonymous\<rparr>),
                f \<mapsto> FolderD (emptyFolderDoc\<lparr>docs := Some []\<rparr>),
                a \<mapsto> AccountD (emptyAccountDoc\<lparr>contactUrl := Some c, rootFolderUrl := Some f\<rparr>)),
        localStorage := (localStorage w)(ACCOUNT_URL_STORAGE_KEY \<mapsto> a)\<rparr>)"
  by (simp add: logOut_def createAccount_result[OF assms])

lemma result_collapse: "x = (fst x, fst (snd x), snd (snd x))"
  by simp

lemma fresh_distinct: "distinct [urlN, urlNc, urlNf]"
  using urls_distinct by simp

text \<open>
  Claim C5. Whatever the state before, \<^verbatim>\<open>logOut()\<close> does not throw; afterwards the
  active contact document is anonymous, the active account document carries
  \<^verbatim>\<open>contactUrl\<close> and \<^verbatim>\<open>rootFolderUrl\<close>, both addresses of documents in the store
  (the three documents just created), and the stored pointer is the address of the
  new account document. The three addresses drawn by \<^verbatim>\<open>repo.create\<close> are distinct.
\<close>

theorem logOut_creates_anonymous_identity:
  assumes "distinct [a, c, f]"
    and "logOut (a, c, f) (this, w) = (r, this', w')"
  shows "r = None
    \<and> handle this' = a \<and> contactHandle this' = c
    \<and> localStorage w' ACCOUNT_URL_STORAGE_KEY = Some (handle this')
    \<and> (\<exists>contact. findContact w' (contactHandle this') = Some contact
          \<and> type contact = Some anonymous)
    \<and> (\<exists>account. findAccount w' (handle this') = Some account
          \<and> contactUrl account = Some c \<and> rootFolderUrl account = Some f)
    \<and> findContact w' c \<noteq> None \<and> findFolder w' f \<noteq> None
    \<and> emitted this' = emitted this + 1"
  using assms
  by (auto simp: logOut_result[OF assms(1)] findContact_def findAccount_def findFolder_def)

theorem logOut_creates_anonymous_identity_witness:
  "distinct [urlN, urlNc, urlNf]
   \<and> fst (logOut (urlN, urlNc, urlNf) (exampleAccount, exampleWorld)) = None
   \<and> handle (fst (snd (logOut (urlN, urlNc, urlNf) (exampleAccount, exampleWorld)))) = urlN
   \<and> contactHandle (fst (snd (logOut (urlN, urlNc, urlNf) (exampleAccount, exampleWorld)))) = urlNc"
proof -
  note c = logOut_creates_anonymous_identity[OF fresh_distinct result_collapse,
      of exampleAccount exampleWorld]
  from c fresh_distinct show ?thesis by blast
qed

text \<open>
  Claim C3, as amended. On a contact document that is already registered,
  \<^verbatim>\<open>signUp\<close> throws nothing: it overwrites \<^verbatim>\<open>name\<close> with the name given, sets
  \<^verbatim>\<open>avatarUrl\<close> to the uploaded file when an avatar is given, and leaves
  \<^verbatim>\<open>avatarUrl\<close> as it was otherwise.
\<close>

theorem signUp_registered_overwrites:
  assumes "findContact w (contactHandle this) = Some contact"
    and "type contact = Some registered"
    and "u \<noteq> contactHandle this" and "u \<noteq> []"
    and "signUp u nm av (this, w) = (r, this', w')"
  shows "r = None \<and> this' = this
    \<and> findContact w' (contactHandle this) =
        Some (contact\<lparr>name := Some nm,
                       avatarUrl := (case av of None \<Rightarrow> avatarUrl contact | Some bytes \<Rightarrow> Some u)\<rparr>)"
proof (cases av)
  case None
  with assms show ?thesis
    by (auto simp: signUp_def changeContact_def findContact_def truthy_def
        split: option.splits document.splits)
next
  case (Some bytes)
  with assms show ?thesis
    by (auto simp: signUp_def changeContact_def findContact_def truthy_def uploadFile_def
        create_def Let_def split: option.splits document.splits)
qed

lemma example_contact: "findContact exampleWorld (contactHandle exampleAccount) = Some contactA"
  by (simp add: findContact_def example_defs url_defs js_def)

theorem signUp_registered_overwrites_witness:
  "findContact exampleWorld (contactHandle exampleAccount) = Some contactA
   \<and> type contactA = Some registered
   \<and> urlN \<noteq> contactHandle exampleAccount \<and> urlN \<noteq> []
   \<and> fst (signUp urlN (js ''Bob'') None (exampleAccount, exampleWorld)) = None
   \<and> findContact (snd (snd (signUp urlN (js ''Bob'') None (exampleAccount, exampleWorld))))
        (contactHandle exampleAccount) = Some (contactA\<lparr>name := Some (js ''Bob'')\<rparr>)"
proof -
  have h2: "type contactA = Some registered" by (simp add: contactA_def)
  have h3: "urlN \<noteq> contactHandle exampleAccount" by (simp add: exampleAccount_def url_defs js_def)
  have h4: "urlN \<noteq> []" by (simp add: url_defs js_def)
  note c = signUp_registered_overwrites[OF example_contact h2 h3 h4 result_collapse,
      of "js ''Bob''" None]
  have "contactA\<lparr>name := Some (js ''Bob''), avatarUrl := avatarUrl contactA\<rparr>
      = contactA\<lparr>name := Some (js ''Bob'')\<rparr>" by simp
  with c example_contact h2 h3 h4 show ?thesis by simp
qed

text \<open>
  The claim as stated has \<^verbatim>\<open>signUp\<close> fail on a registered contact and keep the
  name. On the registered contact of the example it returns and the name is replaced.
\<close>

theorem signUp_registered_counterexample:
  "findContact exampleWorld (contactHandle exampleAccount) = Some contactA
   \<and> type contactA = Some registered \<and> name contactA = Some (js ''Ada'')
   \<and> thrown (signUp urlN (js ''Bob'') None (exampleAccount, exampleWorld)) = None
   \<and> map_option name (findContact (world_of (signUp urlN (js ''Bob'') None
        (exampleAccount, exampleWorld))) (contactHandle exampleAccount)) = Some (Some (js ''Bob''))
   \<and> js ''Bob'' \<noteq> js ''Ada''"
  by (simp add: signUp_def changeContact_def findContact_def truthy_def thrown_def world_of_def
      example_defs url_defs js_def)

text \<open>
  Claim C4, as amended. \<^verbatim>\<open>logIn\<close> overwrites the stored pointer with its argument
  before anything else and never changes a document. It fails with
  \<^verbatim>\<open>Invalid AutomergeUrl\<close> when the argument is not a valid document address, and it
  fails when the account document does not resolve (reading \<^verbatim>\<open>contactUrl\<close> of
  nothing) or when the \<^verbatim>\<open>contactUrl\<close> of the document is missing or not a valid
  address. In each failure both handles and the count of notifications are as before,
  while the pointer stays overwritten. Only on success are both handles replaced and
  one \<^verbatim>\<open>"change"\<close> emitted.
\<close>

theorem logIn_pointer_first:
  assumes "logIn u (this, w) = (r, this', w')"
  shows "localStorage w' = (localStorage w)(ACCOUNT_URL_STORAGE_KEY \<mapsto> u)
    \<and> documents w' = documents w
    \<and> (if \<not> isValidAutomergeUrl (idDecoder w) u
        then r = Some (Error (js ''Invalid AutomergeUrl'')) \<and> handle this' = handle this
               \<and> contactHandle this' = contactHandle this \<and> emitted this' = emitted this
        else (case findAccount w u of
                None \<Rightarrow> r = Some TypeError \<and> handle this' = handle this
                    \<and> contactHandle this' = contactHandle this \<and> emitted this' = emitted this
              | Some accountDoc \<Rightarrow>
                  (case repo_find w (contactUrl accountDoc) of
                     Inl e \<Rightarrow> r = Some (Error (js ''Invalid AutomergeUrl''))
                        \<and> handle this' = handle this
                        \<and> contactHandle this' = contactHandle this
                        \<and> emitted this' = emitted this
                   | Inr c \<Rightarrow> r = None \<and> handle this' = u \<and> contactHandle this' = c
                        \<and> contactUrl accountDoc = Some c
                        \<and> emitted this' = emitted this + 1)))"
  using assms
  by (auto simp: logIn_def logIn_start_def logIn_resume_def findAccount_def repo_find_def
      invalidUrl_def Let_def split: option.splits document.splits sum.splits if_splits)

theorem logIn_pointer_first_witness:
  "fst (logIn urlB (exampleAccount, exampleWorld)) = None
   \<and> handle (fst (snd (logIn urlB (exampleAccount, exampleWorld)))) = urlB
   \<and> contactHandle (fst (snd (logIn urlB (exampleAccount, exampleWorld)))) = urlBc
   \<and> localStorage (snd (snd (logIn urlB (exampleAccount, exampleWorld)))) ACCOUNT_URL_STORAGE_KEY
       = Some urlB"
proof -
  have v: "isValidAutomergeUrl (idDecoder exampleWorld) urlB"
    by (simp add: isValidAutomergeUrl_iff exampleWorld_def acceptEvery_def urlPrefix_def
        wordChar_def url_defs js_def)
  have f: "findAccount exampleWorld urlB = Some docB"
    by (simp add: findAccount_def example_defs url_defs js_def)
  have g: "repo_find exampleWorld (contactUrl docB) = Inr urlBc"
    by (simp add: repo_find_def docB_def isValidAutomergeUrl_iff exampleWorld_def
        acceptEvery_def urlPrefix_def wordChar_def url_defs js_def)
  note c = logIn_pointer_first[OF result_collapse, of urlB exampleAccount exampleWorld]
  from c show ?thesis by (simp add: v f g)
qed

text \<open>
  The claim as stated leaves the stored pointer unchanged when \<^verbatim>\<open>logIn\<close> fails.
  For a string that is no document address the call fails with
  \<^verbatim>\<open>Invalid AutomergeUrl\<close>, and for a valid address without a document it fails as
  well; both times the pointer is the argument.
\<close>

theorem logIn_unresolved_counterexample:
  "localStorage exampleWorld ACCOUNT_URL_STORAGE_KEY = Some urlA
   \<and> thrown (logIn (js ''not-a-url'') (exampleAccount, exampleWorld))
       = Some (Error (js ''Invalid AutomergeUrl''))
   \<and> localStorage (world_of (logIn (js ''not-a-url'') (exampleAccount, exampleWorld)))
        ACCOUNT_URL_STORAGE_KEY = Some (js ''not-a-url'')
   \<and> js ''not-a-url'' \<noteq> urlA
   \<and> isValidAutomergeUrl (idDecoder exampleWorld) (urlPrefix @ exampleId)
   \<and> findAccount exampleWorld (urlPrefix @ exampleId) = None
   \<and> thrown (logIn (urlPrefix @ exampleId) (exampleAccount, exampleWorld)) = Some TypeError
   \<and> localStorage (world_of (logIn (urlPrefix @ exampleId) (exampleAccount, exampleWorld)))
        ACCOUNT_URL_STORAGE_KEY = Some (urlPrefix @ exampleId)
   \<and> urlPrefix @ exampleId \<noteq> urlA"
  by (simp add: model_defs thrown_def world_of_def example_defs url_defs exampleId_def js_def)

text \<open>
  Claim C10. On a repository without storage subsystem \<^verbatim>\<open>getAccount\<close> throws, and
  the store, \<^verbatim>\<open>localStorage\<close> and \<^verbatim>\<open>CURRENT_ACCOUNT\<close> are as before: no document
  is created and no account is made.
\<close>

theorem getAccount_without_storage:
  assumes "\<not> storageSubsystem w"
  shows "getAccount fresh (cur, w) =
           (Throws (Error (js ''cannot create account without storage'')), cur, w)"
  using assms by (simp add: getAccount_def)

theorem getAccount_without_storage_witness:
  "\<not> storageSubsystem (exampleWorld\<lparr>storageSubsystem := False\<rparr>)
   \<and> getAccount (urlN, urlNc, urlNf) (None, exampleWorld\<lparr>storageSubsystem := False\<rparr>) =
       (Throws (Error (js ''cannot create account without storage'')), None,
        exampleWorld\<lparr>storageSubsystem := False\<rparr>)"
proof -
  have h: "\<not> storageSubsystem (exampleWorld\<lparr>storageSubsystem := False\<rparr>)" by simp
  show ?thesis by (intro conjI h getAccount_without_storage[OF h])
qed

text \<open>
  Claim C8. When the OAuth popup or the profile fetch of \<^verbatim>\<open>loginWithAtProto\<close>
  raises an exception, that exception is thrown to the caller, and no document, the
  stored pointer, neither handle, and no network adapter has changed.
\<close>

theorem loginWithAtProto_failure_writes_nothing:
  assumes "signInPopup ev h = Inl e
      \<or> (\<exists>sess. signInPopup ev h = Inr sess \<and> getProfile ev sess = Inl e)"
    and "loginWithAtProto ev fresh h (this, w) = (r, this', w')"
  shows "r = Some e \<and> documents w' = documents w \<and> localStorage w' = localStorage w
     \<and> handle this' = handle this \<and> contactHandle this' = contactHandle this
     \<and> emitted this' = emitted this \<and> suspended this' = suspended this
     \<and> networkAdapters w' = networkAdapters w"
  using assms
  by (auto simp: loginWithAtProto_def Let_def)

theorem loginWithAtProto_failure_writes_nothing_witness:
  "(signInPopup failingEnv (js ''ada.example'') = Inl (External (js ''profile fetch failed''))
      \<or> (\<exists>sess. signInPopup failingEnv (js ''ada.example'') = Inr sess
            \<and> getProfile failingEnv sess = Inl (External (js ''profile fetch failed''))))
   \<and> fst (loginWithAtProto failingEnv (urlN, urlNc, urlNf) (js ''ada.example'')
            (exampleAccount, exampleWorld)) = Some (External (js ''profile fetch failed''))
   \<and> documents (snd (snd (loginWithAtProto failingEnv (urlN, urlNc, urlNf) (js ''ada.example'')
            (exampleAccount, exampleWorld)))) = documents exampleWorld"
proof -
  have h: "signInPopup failingEnv (js ''ada.example'') = Inl (External (js ''profile fetch failed''))
      \<or> (\<exists>sess. signInPopup failingEnv (js ''ada.example'') = Inr sess
            \<and> getProfile failingEnv sess = Inl (External (js ''profile fetch failed'')))"
    by (simp add: failingEnv_def exampleEnv_def)
  note c = loginWithAtProto_failure_writes_nothing[OF h result_collapse,
      of "(urlN, urlNc, urlNf)" exampleAccount exampleWorld]
  from c h show ?thesis by blast
qed

lemma connectToPSS_noSyncChannel:
  assumes "session this = Some sess" and "noSyncChannel ev sess (handle this)"
  shows "connectToPSS ev fresh (this, w) = (None, this, w)"
  using assms
  by (auto simp: connectToPSS_def connectToPSS_try_def noSyncChannel_def
      split: sum.splits option.splits if_splits)

text \<open>
  Claim C9. \<^verbatim>\<open>connectToPSS\<close> never throws, whatever the outside answers and
  whatever the documents are, and when the negotiation ends without a channel (the
  provider has no sync record or host, or a request fails) it returns with the state
  untouched. Hence \<^verbatim>\<open>loginWithAtProto\<close> returns normally whenever the popup and the
  profile fetch succeed, the profile has a display name and an avatar, and the active
  documents are loaded; and when the negotiation ends without a channel the link is
  complete all the same: the session is kept, the account document carries the
  provider's identifiers, the contact document is registered with the profile, and no
  network adapter was added.
\<close>

theorem negotiation_failures_swallowed:
  "thrown (connectToPSS ev fresh s) = None
   \<and> (session this = Some sess' \<and> noSyncChannel ev sess' (handle this)
      \<longrightarrow> connectToPSS ev fresh (this, w) = (None, this, w))
   \<and> (signInPopup ev h = Inr sess \<and> getProfile ev sess = Inr profile
        \<and> displayName profile = Some dn \<and> avatar profile = Some av
        \<and> findAccount w (handle this) = Some acc
        \<and> findContact w (contactHandle this) = Some con
      \<longrightarrow> thrown (loginWithAtProto ev fresh h (this, w)) = None
          \<and> (noSyncChannel ev sess (handle this) \<longrightarrow>
               loginWithAtProto ev fresh h (this, w) =
                 (None, this\<lparr>session := Some sess\<rparr>,
                  w\<lparr>location_href := Some (handle this),
                    documents := (documents w)
                      (handle this \<mapsto> AccountD (acc\<lparr>atprotoDid := Some (did sess),
                           atprotoHandle := Some (profile_handle profile)\<rparr>),
                       contactHandle this \<mapsto> ContactD (con\<lparr>type := Some registered,
                           name := Some (if dn = [] then profile_handle profile else dn),
                           atprotoProfile := Some profile\<rparr>))\<rparr>)))"
proof -
  have 1: "thrown (connectToPSS ev fresh s) = None" for s
    by (simp add: connectToPSS_def thrown_def split: prod.splits)
  have 2: "connectToPSS ev fresh (this, w) = (None, this, w)"
    if "session this = Some sess'" "noSyncChannel ev sess' (handle this)"
    using that by (rule connectToPSS_noSyncChannel)
  have 3: "loginWithAtProto ev fresh h (this, w) =
      connectToPSS ev fresh (this\<lparr>session := Some sess\<rparr>,
         w\<lparr>location_href := Some (handle this),
           documents := (documents w)
             (handle this \<mapsto> AccountD (acc\<lparr>atprotoDid := Some (did sess),
                  atprotoHandle := Some (profile_handle profile)\<rparr>),
              contactHandle this \<mapsto> ContactD (con\<lparr>type := Some registered,
                  name := Some (if dn = [] then profile_handle profile else dn),
                  atprotoProfile := Some profile\<rparr>))\<rparr>)"
    if "signInPopup ev h = Inr sess" "getProfile ev sess = Inr profile"
      "displayName profile = Some dn" "avatar profile = Some av"
      "findAccount w (handle this) = Some acc" "findContact w (contactHandle this) = Some con"
    using that
    by (auto simp: loginWithAtProto_def Let_def changeAccount_def changeContactE_def
        findAccount_def findContact_def split: option.splits document.splits)
  have 4: "connectToPSS ev fresh (this\<lparr>session := Some sess\<rparr>, w2) =
      (None, this\<lparr>session := Some sess\<rparr>, w2)"
    if "noSyncChannel ev sess (handle this)" for w2
    using that connectToPSS_noSyncChannel[of "this\<lparr>session := Some sess\<rparr>" sess ev fresh w2]
    by simp
  show ?thesis using 1 2 3 4 by (simp add: thrown_def)
qed

theorem negotiation_failures_swallowed_witness:
  "thrown (connectToPSS offlineEnv (urlN, urlNc, urlNf) (exampleAccount, exampleWorld)) = None
   \<and> session exampleAccount = Some \<lparr>did = js ''did:plc:ada''\<rparr>
   \<and> noSyncChannel offlineEnv \<lparr>did = js ''did:plc:ada''\<rparr> (handle exampleAccount)
   \<and> connectToPSS offlineEnv (urlN, urlNc, urlNf) (exampleAccount, exampleWorld)
       = (None, exampleAccount, exampleWorld)
   \<and> signInPopup offlineEnv (js ''ada.example'') = Inr \<lparr>did = js ''did:plc:ada''\<rparr>
   \<and> getProfile offlineEnv \<lparr>did = js ''did:plc:ada''\<rparr> = Inr fullProfile
   \<and> displayName fullProfile = Some (js ''Ada'')
   \<and> avatar fullProfile = Some (js ''https://cdn.example/ada.png'')
   \<and> findAccount exampleWorld (handle exampleAccount) = Some docA
   \<and> findContact exampleWorld (contactHandle exampleAccount) = Some contactA
   \<and> thrown (loginWithAtProto offlineEnv (urlN, urlNc, urlNf) (js ''ada.example'')
        (exampleAccount, exampleWorld)) = None
   \<and> loginWithAtProto offlineEnv (urlN, urlNc, urlNf) (js ''ada.example'')
        (exampleAccount, exampleWorld) =
        (None, exampleAccount\<lparr>session := Some \<lparr>did = js ''did:plc:ada''\<rparr>\<rparr>,
         exampleWorld\<lparr>location_href := Some (handle exampleAccount),
           documents := (documents exampleWorld)
             (handle exampleAccount \<mapsto>
                AccountD (docA\<lparr>atprotoDid := Some (did \<lparr>did = js ''did:plc:ada''\<rparr>),
                   atprotoHandle := Some (profile_handle fullProfile)\<rparr>),
              contactHandle exampleAccount \<mapsto>
                ContactD (contactA\<lparr>type := Some registered,
                   name := Some (if js ''Ada'' = [] then profile_handle fullProfile
                                 else js ''Ada''),
                   atprotoProfile := Some fullProfile\<rparr>))\<rparr>)"
proof -
  have a: "signInPopup offlineEnv (js ''ada.example'') = Inr \<lparr>did = js ''did:plc:ada''\<rparr>"
    "getProfile offlineEnv \<lparr>did = js ''did:plc:ada''\<rparr> = Inr fullProfile"
    "noSyncChannel offlineEnv \<lparr>did = js ''did:plc:ada''\<rparr> (handle exampleAccount)"
    "session exampleAccount = Some \<lparr>did = js ''did:plc:ada''\<rparr>"
    "displayName fullProfile = Some (js ''Ada'')"
    "avatar fullProfile = Some (js ''https://cdn.example/ada.png'')"
    by (simp_all add: offlineEnv_def exampleEnv_def exampleAccount_def noSyncChannel_def
        fullProfile_def)
  have b: "findAccount exampleWorld (handle exampleAccount) = Some docA"
    "findContact exampleWorld (contactHandle exampleAccount) = Some contactA"
    by (simp_all add: findAccount_def findContact_def example_defs url_defs js_def)
  note c = negotiation_failures_swallowed[of offlineEnv "(urlN, urlNc, urlNf)"
      "(exampleAccount, exampleWorld)" exampleAccount "\<lparr>did = js ''did:plc:ada''\<rparr>"
      exampleWorld "js ''ada.example''" "\<lparr>did = js ''did:plc:ada''\<rparr>" fullProfile
      "js ''Ada''" "js ''https://cdn.example/ada.png''" docA contactA]
  from c a b show ?thesis by blast
qed

text \<open>
  Claim C1, on the example: identity \<open>A\<close> carries provider fields and the sync
  server answers with \<^verbatim>\<open>rootDocUrl\<close> \<open>B\<close>. Once the negotiation and the suspended
  \<^verbatim>\<open>logIn\<close> have run, the pointer and the handle are \<open>B\<close>, but the documents of
  \<open>B\<close> are as they were: the provider fields, the token and the contact fields were
  written to the identity \<open>N\<close> that \<^verbatim>\<open>logOut\<close> had just created, since
  \<^verbatim>\<open>logIn\<close> is not awaited.
\<close>

theorem mismatch_writes_to_fresh_identity:
  "session exampleAccount \<noteq> None
   \<and> authenticate exampleEnv \<lparr>did = js ''did:plc:ada''\<rparr> (js ''pss.example'') urlA
       = Inr \<lparr>rootDocUrl = urlB, token = js ''jwt''\<rparr>
   \<and> urlB \<noteq> handle exampleAccount
   \<and> findAccount exampleWorld urlA = Some docA
   \<and> atprotoDid docA = Some (js ''did:plc:ada'')
   \<and> handle (fst (settle (snd (connectToPSS exampleEnv (urlN, urlNc, urlNf)
        (exampleAccount, exampleWorld))))) = urlB
   \<and> localStorage (snd (settle (snd (connectToPSS exampleEnv (urlN, urlNc, urlNf)
        (exampleAccount, exampleWorld))))) ACCOUNT_URL_STORAGE_KEY = Some urlB
   \<and> findAccount (snd (settle (snd (connectToPSS exampleEnv (urlN, urlNc, urlNf)
        (exampleAccount, exampleWorld))))) urlB = Some docB
   \<and> atprotoDid docB = None \<and> pssJwt docB = None
   \<and> findContact (snd (settle (snd (connectToPSS exampleEnv (urlN, urlNc, urlNf)
        (exampleAccount, exampleWorld))))) urlBc = Some contactB
   \<and> type contactB = Some anonymous
   \<and> findAccount (snd (settle (snd (connectToPSS exampleEnv (urlN, urlNc, urlNf)
        (exampleAccount, exampleWorld))))) urlN =
         Some \<lparr>contactUrl = Some urlNc, rootFolderUrl = Some urlNf,
               atprotoDid = Some (js ''did:plc:ada''), atprotoHandle = Some (js ''ada.example''),
               pssJwt = Some (js ''jwt''), lastOnlineSync = None\<rparr>
   \<and> findContact (snd (settle (snd (connectToPSS exampleEnv (urlN, urlNc, urlNf)
        (exampleAccount, exampleWorld))))) urlNc =
         Some \<lparr>type = Some registered, name = Some (js ''Ada''), avatarUrl = None,
               atprotoProfile = Some adaProfile\<rparr>"
  by (simp add: model_defs example_defs url_defs js_def)

text \<open>
  Claim C7, on the example: another tab writes the address \<open>N\<close> of an account
  document that has no \<^verbatim>\<open>contactUrl\<close> yet. The listener registers a watcher and
  does not switch. The change that sets \<^verbatim>\<open>contactUrl\<close> calls \<^verbatim>\<open>logIn\<close>; the
  next change of the document calls it again, and after this tab has logged in to
  \<open>B\<close> a further change of \<open>N\<close> switches it back to \<open>N\<close>.
\<close>

theorem storage_watcher_fires_on_every_change:
  "findAccount creatingWorld urlN = Some emptyAccountDoc
   \<and> watching (fst (snd (storageListener ACCOUNT_URL_STORAGE_KEY urlN
        (exampleAccount, creatingWorld)))) = [urlN]
   \<and> handle (fst (snd (storageListener ACCOUNT_URL_STORAGE_KEY urlN
        (exampleAccount, creatingWorld)))) = urlA
   \<and> emitted (fst (docChanged urlN docN1 (snd (storageListener ACCOUNT_URL_STORAGE_KEY urlN
        (exampleAccount, creatingWorld))))) = 1
   \<and> handle (fst (docChanged urlN docN1 (snd (storageListener ACCOUNT_URL_STORAGE_KEY urlN
        (exampleAccount, creatingWorld))))) = urlN
   \<and> emitted (fst (docChanged urlN (docN1\<lparr>lastOnlineSync := Some 1\<rparr>)
        (docChanged urlN docN1 (snd (storageListener ACCOUNT_URL_STORAGE_KEY urlN
        (exampleAccount, creatingWorld)))))) = 2
   \<and> handle (fst (snd (logIn urlB (docChanged urlN docN1
        (snd (storageListener ACCOUNT_URL_STORAGE_KEY urlN (exampleAccount, creatingWorld))))))) = urlB
   \<and> handle (fst (docChanged urlN (docN1\<lparr>lastOnlineSync := Some 1\<rparr>)
        (snd (logIn urlB (docChanged urlN docN1
        (snd (storageListener ACCOUNT_URL_STORAGE_KEY urlN (exampleAccount, creatingWorld)))))))) = urlN"
  by (simp add: storageListener_def docChanged_def truthy_def creatingWorld_def docN1_def
      model_defs example_defs url_defs js_def ACCOUNT_URL_STORAGE_KEY_def)

end
